theory Spec2Isabelle
  imports Complex_Main "HOL-Library.Word" "HOL-Library.Multiset"
begin

section \<open>The LinkMatch score ledger (contract LinkMatch)\<close>

text \<open>
  The contract stores one \<open>EncryptedGameResult\<close> per player, the array \<open>players\<close> and the
  mapping \<open>hasSubmitted\<close>. Addresses are 160-bit words, an \<open>euint32\<close> is its 32-byte handle,
  a decrypted score is a 32-bit unsigned word. Values of type \<open>uint256\<close> (timestamps, array
  indices, the array length) are natural numbers: the contract only compares them and indexes
  with them, it never computes with them.
\<close>

type_synonym address = "160 word"
type_synonym euint32 = "256 word"
type_synonym externalEuint32 = "256 word"
type_synonym bytes = "8 word list"
type_synonym uint256 = nat

record EncryptedGameResult =
  score :: euint32
  player :: address
  timestamp :: uint256

datatype event = GameResultSubmitted address uint256

text \<open>
  The library \<open>FHE\<close> and the access-control list it writes to are not part of the repository.
  The operations of the library that the contract calls are parameters of the model:
  \<open>FHE_fromExternal\<close> checks the proof of an input for (contract, sender) and yields the
  internal handle, or fails (the call reverts); \<open>FHE_max\<close> yields the handle of the larger of
  two encrypted values; \<open>decrypt\<close> is the plaintext a handle denotes. The access-control list is
  the set \<open>acl\<close> of (handle, principal) grants; \<open>FHE.allow\<close> adds one grant.
\<close>

record backend =
  FHE_fromExternal :: "address \<Rightarrow> address \<Rightarrow> externalEuint32 \<Rightarrow> bytes \<Rightarrow> euint32 option"
  FHE_max :: "euint32 \<Rightarrow> euint32 \<Rightarrow> euint32"
  decrypt :: "euint32 \<Rightarrow> 32 word"

record ledger =
  playerResults :: "address \<Rightarrow> EncryptedGameResult"
  players :: "address list"
  hasSubmitted :: "address \<Rightarrow> bool"
  acl :: "(euint32 \<times> address) set"
  events :: "event list"

datatype revert =
    InputVerificationFailed
  | PlayerHasNotSubmitted
  | IndexOutOfBounds

definition zero_result :: EncryptedGameResult where
  "zero_result = \<lparr>score = 0, player = 0, timestamp = 0\<rparr>"

definition deployed :: ledger where
  "deployed = \<lparr>playerResults = (\<lambda>_. zero_result), players = [],
                hasSubmitted = (\<lambda>_. False), acl = {}, events = []\<rparr>"

definition FHE_allow :: "euint32 \<Rightarrow> address \<Rightarrow> ledger \<Rightarrow> ledger" where
  "FHE_allow h p s = s\<lparr>acl := insert (h, p) (acl s)\<rparr>"

definition emit :: "event \<Rightarrow> ledger \<Rightarrow> ledger" where
  "emit e s = s\<lparr>events := events s @ [e]\<rparr>"

text \<open>
  \<open>submitGameResult\<close>, called by \<open>sender\<close> on the contract at address \<open>this\<close> in a block with
  timestamp \<open>now\<close>. A revert returns no state: the state before the call stays.
\<close>

definition submitGameResult ::
  "backend \<Rightarrow> address \<Rightarrow> address \<Rightarrow> uint256 \<Rightarrow> externalEuint32 \<Rightarrow> bytes \<Rightarrow> ledger
     \<Rightarrow> revert + ledger" where
  "submitGameResult be this sender now encryptedScore scoreProof s =
     (case FHE_fromExternal be this sender encryptedScore scoreProof of
        None \<Rightarrow> Inl InputVerificationFailed
      | Some newScore \<Rightarrow>
          let s1 = FHE_allow newScore this s;
              s2 = FHE_allow newScore sender s1
          in if \<not> hasSubmitted s2 sender then
               let s3 = s2\<lparr>players := players s2 @ [sender]\<rparr>;
                   s4 = s3\<lparr>hasSubmitted := (hasSubmitted s3)(sender := True)\<rparr>;
                   s5 = s4\<lparr>playerResults := (playerResults s4)
                          (sender := \<lparr>score = newScore, player = sender, timestamp = now\<rparr>)\<rparr>
               in Inr (emit (GameResultSubmitted sender now) s5)
             else
               let currentScore = score (playerResults s2 sender);
                   highestScore = FHE_max be newScore currentScore;
                   s3 = s2\<lparr>playerResults := (playerResults s2)
                          (sender := \<lparr>score = highestScore, player = sender, timestamp = now\<rparr>)\<rparr>;
                   s4 = FHE_allow highestScore this s3;
                   s5 = FHE_allow highestScore sender s4
               in Inr (emit (GameResultSubmitted sender now) s5))"

definition getPlayerResult :: "ledger \<Rightarrow> address \<Rightarrow> revert + euint32" where
  "getPlayerResult s p =
     (if \<not> hasSubmitted s p then Inl PlayerHasNotSubmitted
      else let result = playerResults s p in Inr (score result))"

definition getPlayerCount :: "ledger \<Rightarrow> uint256" where
  "getPlayerCount s = length (players s)"

definition getPlayerByIndex :: "ledger \<Rightarrow> uint256 \<Rightarrow> revert + address" where
  "getPlayerByIndex s index =
     (if \<not> index < length (players s) then Inl IndexOutOfBounds
      else Inr (players s ! index))"

definition checkPlayerSubmitted :: "ledger \<Rightarrow> address \<Rightarrow> bool" where
  "checkPlayerSubmitted s p = hasSubmitted s p"

text \<open>
  The loop of \<open>getAllEncryptedScores\<close>: both result arrays are allocated with \<open>cnt\<close> (the source's \<open>count\<close>) zero
  entries and filled from index \<open>i\<close> upwards.
\<close>

function getAllEncryptedScores_loop ::
  "ledger \<Rightarrow> uint256 \<Rightarrow> uint256 \<Rightarrow> address list \<times> euint32 list \<Rightarrow> address list \<times> euint32 list"
  where
  "getAllEncryptedScores_loop s cnt i (playerAddresses, encryptedScores) =
     (if i < cnt then
        let p = players s ! i
        in getAllEncryptedScores_loop s cnt (Suc i)
             (playerAddresses[i := p], encryptedScores[i := score (playerResults s p)])
      else (playerAddresses, encryptedScores))"
  by pat_completeness auto
termination
  by (relation "measure (\<lambda>(s, cnt, i, r). cnt - i)") auto

declare getAllEncryptedScores_loop.simps [simp del]

definition getAllEncryptedScores :: "ledger \<Rightarrow> address list \<times> euint32 list" where
  "getAllEncryptedScores s =
     (let cnt = length (players s)
      in getAllEncryptedScores_loop s cnt 0 (replicate cnt 0, replicate cnt 0))"

subsection \<open>Transactions\<close>

text \<open>
  A transaction is one call of \<open>submitGameResult\<close>. A transaction that reverts leaves the
  state as it was.
\<close>

record tx =
  tx_sender :: address
  tx_time :: uint256
  tx_input :: externalEuint32
  tx_proof :: bytes

definition apply_tx :: "backend \<Rightarrow> address \<Rightarrow> tx \<Rightarrow> ledger \<Rightarrow> ledger" where
  "apply_tx be this t s =
     (case submitGameResult be this (tx_sender t) (tx_time t) (tx_input t) (tx_proof t) s of
        Inl _ \<Rightarrow> s
      | Inr s' \<Rightarrow> s')"

definition run_txs :: "backend \<Rightarrow> address \<Rightarrow> tx list \<Rightarrow> ledger \<Rightarrow> ledger" where
  "run_txs be this ts s = fold (apply_tx be this) ts s"

text \<open>The handle a transaction submits, when its proof is accepted.\<close>

definition accepted :: "backend \<Rightarrow> address \<Rightarrow> tx \<Rightarrow> euint32 option" where
  "accepted be this t = FHE_fromExternal be this (tx_sender t) (tx_input t) (tx_proof t)"

text \<open>The senders of the accepted transactions, and the plaintexts one player submitted.\<close>

definition accepted_senders :: "backend \<Rightarrow> address \<Rightarrow> tx list \<Rightarrow> address list" where
  "accepted_senders be this ts =
     map tx_sender (filter (\<lambda>t. accepted be this t \<noteq> None) ts)"

definition submitted_plaintexts :: "backend \<Rightarrow> address \<Rightarrow> address \<Rightarrow> tx list \<Rightarrow> 32 word list" where
  "submitted_plaintexts be this p ts =
     List.map_filter (\<lambda>t. if tx_sender t = p then map_option (decrypt be) (accepted be this t) else None) ts"

text \<open>The order of first occurrences of the elements of a list.\<close>

definition first_occurrences :: "'a list \<Rightarrow> 'a list" where
  "first_occurrences xs = rev (remdups (rev xs))"

section \<open>The client hook \<open>useLinkMatch\<close>\<close>

text \<open>
  In the client, addresses and handles are hexadecimal strings. A value that may be
  \<open>undefined\<close> is an option. The hook's state is one record: the values the callbacks close
  over (\<open>linkMatch.address\<close>, \<open>instance\<close>, \<open>ethersSigner\<close>, \<open>chainId\<close>, \<open>playerResultHandle\<close>),
  the React state and the refs. \<open>playerResultHandle\<close> is an object with the single field
  \<open>score\<close>, so it is modelled by that string. \<open>clearResult\<close> is only ever \<open>undefined\<close> or an
  object whose \<open>score\<close> is a \<open>ClearValueType\<close>, so it is an optional \<open>ClearValueType\<close>.

  A workflow is suspended at each \<open>await\<close>. What happened meanwhile reaches it in two ways
  only: the value the awaited call returns, and the refs it reads in \<open>isStale()\<close>. Both are
  inputs of the model, one record per workflow.
\<close>

datatype FhevmInstance = FhevmInstance

datatype JsonRpcSigner = JsonRpcSigner (signer_address: string)

datatype clear_value = ClearString string | ClearBigint int | ClearBoolean bool

record ClearValueType =
  cv_handle :: string
  cv_clear :: "clear_value option"

record FhevmDecryptionSignature =
  publicKey :: string
  privateKey :: string
  signature :: string
  startTimestamp :: nat
  durationDays :: nat
  userAddress :: string
  contractAddresses :: "string list"

record hook =
  linkMatch_address :: "string option"
  fhevm_instance :: "FhevmInstance option"
  ethersSigner :: "JsonRpcSigner option"
  chainId :: "nat option"
  playerResultHandle :: "string option"
  clearResult :: "ClearValueType option"
  clearResultRef :: "ClearValueType option"
  isRefreshing :: bool
  isDecrypting :: bool
  isSubmitting :: bool
  isRefreshingRef :: bool
  isDecryptingRef :: bool
  isSubmittingRef :: bool
  message :: string

text \<open>
  What a resumed continuation reads through the refs: \<open>linkMatchRef.current?.address\<close> and the
  callbacks \<open>sameChain.current\<close> and \<open>sameSigner.current\<close>, which the caller of the hook
  supplies.
\<close>

record refs =
  linkMatchRef_address :: "string option"
  sameChain :: "nat option \<Rightarrow> bool"
  sameSigner :: "JsonRpcSigner option \<Rightarrow> bool"

datatype exn = Error string

text \<open>The calls the hook makes to its collaborators, in the order it makes them.\<close>

datatype call =
    LoadOrSign "string list" JsonRpcSigner
  | UserDecrypt string string FhevmDecryptionSignature
  | Encrypt string string int
  | SubmitGameResultTx string JsonRpcSigner externalEuint32 bytes
  | TxWait
  | RefreshPlayerResult

fun is_backend_decrypt_call :: "call \<Rightarrow> bool" where
  "is_backend_decrypt_call (LoadOrSign _ _) = True"
| "is_backend_decrypt_call (UserDecrypt _ _ _) = True"
| "is_backend_decrypt_call _ = False"

fun is_submit_call :: "call \<Rightarrow> bool" where
  "is_submit_call (SubmitGameResultTx _ _ _ _) = True"
| "is_submit_call _ = False"

text \<open>\<open>ethers.ZeroHash\<close>: \<open>0x\<close> followed by 64 zeros.\<close>

definition ZeroHash :: string where
  "ZeroHash = ''0x'' @ replicate 64 (CHR ''0'')"

text \<open>JavaScript truthiness of an optional string: \<open>undefined\<close> and the empty string are falsy.\<close>

definition falsy :: "string option \<Rightarrow> bool" where
  "falsy x = (case x of None \<Rightarrow> True | Some s \<Rightarrow> s = [])"

definition isStale :: "string \<Rightarrow> nat option \<Rightarrow> JsonRpcSigner \<Rightarrow> refs \<Rightarrow> bool" where
  "isStale thisLinkMatchAddress thisChainId thisEthersSigner r \<longleftrightarrow>
     Some thisLinkMatchAddress \<noteq> linkMatchRef_address r \<or>
     \<not> sameChain r thisChainId \<or>
     \<not> sameSigner r (Some thisEthersSigner)"

subsection \<open>Decryption\<close>

definition canDecrypt :: "hook \<Rightarrow> bool" where
  "canDecrypt st \<longleftrightarrow>
     \<not> falsy (linkMatch_address st) \<and>
     fhevm_instance st \<noteq> None \<and>
     ethersSigner st \<noteq> None \<and>
     \<not> isRefreshing st \<and>
     \<not> isDecrypting st \<and>
     (case playerResultHandle st of None \<Rightarrow> False | Some sc \<Rightarrow> sc \<noteq> ZeroHash)"

text \<open>
  What the collaborators answer during one run of \<open>decryptPlayerResult\<close>: the result of
  \<open>loadOrSign\<close> (an exception, \<open>null\<close> or a signature), the refs as the first \<open>isStale()\<close>
  reads them, the result of \<open>userDecrypt\<close> (an exception or a map from handles to clear
  values), and the refs as the second \<open>isStale()\<close> reads them.
\<close>

record decrypt_world =
  loadOrSign_result :: "exn + FhevmDecryptionSignature option"
  refs_after_sign :: refs
  userDecrypt_result :: "exn + (string \<rightharpoonup> clear_value)"
  refs_after_decrypt :: refs

text \<open>
  The asynchronous body \<open>run\<close> of \<open>decryptPlayerResult\<close>. The result is the state, the calls
  made, and the exception the promise is rejected with, if any. The \<open>finally\<close> block resets
  the two flags on every path.
\<close>

definition decrypt_finally :: "hook \<Rightarrow> hook" where
  "decrypt_finally st = st\<lparr>isDecryptingRef := False, isDecrypting := False\<rparr>"

definition decrypt_run ::
  "decrypt_world \<Rightarrow> string \<Rightarrow> nat option \<Rightarrow> string \<Rightarrow> JsonRpcSigner \<Rightarrow> hook
     \<Rightarrow> hook \<times> call list \<times> exn option" where
  "decrypt_run w thisLinkMatchAddress thisChainId thisScoreHandle thisEthersSigner st =
     (case loadOrSign_result w of
        Inl e \<Rightarrow>
          (decrypt_finally st, [LoadOrSign [thisLinkMatchAddress] thisEthersSigner], Some e)
      | Inr None \<Rightarrow>
          (decrypt_finally (st\<lparr>message := ''Unable to build FHEVM decryption signature''\<rparr>),
           [LoadOrSign [thisLinkMatchAddress] thisEthersSigner], None)
      | Inr (Some sig) \<Rightarrow>
          if isStale thisLinkMatchAddress thisChainId thisEthersSigner (refs_after_sign w) then
            (decrypt_finally (st\<lparr>message := ''Ignore FHEVM decryption''\<rparr>),
             [LoadOrSign [thisLinkMatchAddress] thisEthersSigner], None)
          else
            let st1 = st\<lparr>message := ''Call FHEVM userDecrypt...''\<rparr>;
                handleStr = thisScoreHandle
            in if handleStr = [] \<or> handleStr = ''0x'' \<or> length handleStr < 66 then
                 (decrypt_finally (st1\<lparr>message := ''Invalid handle format''\<rparr>),
                  [LoadOrSign [thisLinkMatchAddress] thisEthersSigner], None)
               else
                 (case userDecrypt_result w of
                    Inl e \<Rightarrow>
                      (decrypt_finally st1,
                       [LoadOrSign [thisLinkMatchAddress] thisEthersSigner,
                        UserDecrypt handleStr thisLinkMatchAddress sig], Some e)
                  | Inr res \<Rightarrow>
                      let st2 = st1\<lparr>message := ''FHEVM userDecrypt completed!''\<rparr>
                      in if isStale thisLinkMatchAddress thisChainId thisEthersSigner
                              (refs_after_decrypt w) then
                           (decrypt_finally (st2\<lparr>message := ''Ignore FHEVM decryption''\<rparr>),
                            [LoadOrSign [thisLinkMatchAddress] thisEthersSigner,
                             UserDecrypt handleStr thisLinkMatchAddress sig], None)
                         else
                           let decryptedValue =
                                 (case res handleStr of
                                    Some v \<Rightarrow> Some v
                                  | None \<Rightarrow> res thisScoreHandle);
                               cv = \<lparr>cv_handle = handleStr, cv_clear = decryptedValue\<rparr>
                           in (decrypt_finally
                                 (st2\<lparr>clearResult := Some cv, clearResultRef := Some cv\<rparr>),
                               [LoadOrSign [thisLinkMatchAddress] thisEthersSigner,
                                UserDecrypt handleStr thisLinkMatchAddress sig], None)))"

definition decryptPlayerResult ::
  "decrypt_world \<Rightarrow> hook \<Rightarrow> hook \<times> call list \<times> exn option" where
  "decryptPlayerResult w st =
     (if isRefreshingRef st \<or> isDecryptingRef st then (st, [], None)
      else if falsy (linkMatch_address st) \<or> fhevm_instance st = None
              \<or> ethersSigner st = None \<or> playerResultHandle st = None then (st, [], None)
      else
        (case (linkMatch_address st, ethersSigner st, playerResultHandle st) of
           (Some thisLinkMatchAddress, Some thisEthersSigner, Some thisScoreHandle) \<Rightarrow>
             if Some thisScoreHandle = map_option cv_handle (clearResultRef st) then (st, [], None)
             else if thisScoreHandle = [] then
               (st\<lparr>clearResult := None, clearResultRef := None\<rparr>, [], None)
             else
               decrypt_run w thisLinkMatchAddress (chainId st) thisScoreHandle thisEthersSigner
                 (st\<lparr>isDecryptingRef := True, isDecrypting := True, message := ''Start decrypt''\<rparr>)
         | _ \<Rightarrow> (st, [], None)))"

text \<open>
  The page (\<open>Home\<close>) offers the operation as a button with
  \<open>disabled={!linkMatch.canDecrypt}\<close> and \<open>onClick={linkMatch.decryptPlayerResult}\<close>: a click
  reaches the callback only when \<open>canDecrypt\<close> holds.
\<close>

definition Home_decrypt_onClick ::
  "decrypt_world \<Rightarrow> hook \<Rightarrow> hook \<times> call list \<times> exn option" where
  "Home_decrypt_onClick w st = (if canDecrypt st then decryptPlayerResult w st else (st, [], None))"

subsection \<open>Submission\<close>

text \<open>
  What the collaborators answer during one run of \<open>submitGameResult\<close>: the result of
  \<open>scoreInput.encrypt()\<close> (an exception, or \<open>handles[0]\<close> and \<open>inputProof\<close>), the refs as the
  first \<open>isStale()\<close> reads them, the result of \<open>tx.wait()\<close> (an exception or the printed status
  of the receipt), and the refs as the second \<open>isStale()\<close> reads them. The ledger is a state of
  any type \<open>'l\<close>; \<open>send\<close> is the contract call
  \<open>thisLinkMatchContract.submitGameResult(handle, proof)\<close> signed by the signer: it throws, or
  it yields the hash of the transaction and the ledger after it.

  The plaintext \<open>scoreInt = Math.floor(result.score * 1000)\<close> is a parameter here: the control
  flow does not depend on it. Its computation from the score is \<open>scoreInt_of\<close> below. The refresh that a completed submission triggers is recorded as the
  call \<open>RefreshPlayerResult\<close>; its body is not part of this model.
\<close>

record submit_world =
  encrypt_result :: "exn + externalEuint32 \<times> bytes"
  refs_after_encrypt :: refs
  wait_result :: "exn + string"
  refs_after_wait :: refs

type_synonym 'l send =
  "string \<Rightarrow> JsonRpcSigner \<Rightarrow> externalEuint32 \<Rightarrow> bytes \<Rightarrow> 'l \<Rightarrow> exn + string \<times> 'l"

definition submit_finally :: "hook \<Rightarrow> hook" where
  "submit_finally st = st\<lparr>isSubmittingRef := False, isSubmitting := False\<rparr>"

text \<open>
  The \<open>catch\<close> block prints the exception into the message with a template literal; an
  \<open>Error\<close> object prints as \<open>Error:\<close> followed by its message.
\<close>

definition submit_failed :: "exn \<Rightarrow> hook \<Rightarrow> hook" where
  "submit_failed e st =
     (case e of Error m \<Rightarrow> st\<lparr>message := ''Submit Failed! Error: '' @ m\<rparr>)"

definition submit_run ::
  "'l send \<Rightarrow> submit_world \<Rightarrow> string \<Rightarrow> nat option \<Rightarrow> JsonRpcSigner \<Rightarrow> int \<Rightarrow> hook \<Rightarrow> 'l
     \<Rightarrow> hook \<times> 'l \<times> call list" where
  "submit_run send w thisLinkMatchAddress thisChainId thisEthersSigner scoreInt st l =
     (case encrypt_result w of
        Inl e \<Rightarrow>
          (submit_finally (submit_failed e st), l,
           [Encrypt thisLinkMatchAddress (signer_address thisEthersSigner) scoreInt])
      | Inr (handle0, inputProof) \<Rightarrow>
          if isStale thisLinkMatchAddress thisChainId thisEthersSigner (refs_after_encrypt w) then
            (submit_finally (st\<lparr>message := ''Ignore submit''\<rparr>), l,
             [Encrypt thisLinkMatchAddress (signer_address thisEthersSigner) scoreInt])
          else
            let st1 = st\<lparr>message := ''Call submitGameResult...''\<rparr>
            in (case send thisLinkMatchAddress thisEthersSigner handle0 inputProof l of
                  Inl e \<Rightarrow>
                    (submit_finally (submit_failed e st1), l,
                     [Encrypt thisLinkMatchAddress (signer_address thisEthersSigner) scoreInt,
                      SubmitGameResultTx thisLinkMatchAddress thisEthersSigner handle0 inputProof])
                | Inr (tx_hash, l') \<Rightarrow>
                    let st2 = st1\<lparr>message := ''Wait for tx:'' @ tx_hash @ ''...''\<rparr>;
                        calls = [Encrypt thisLinkMatchAddress (signer_address thisEthersSigner) scoreInt,
                                 SubmitGameResultTx thisLinkMatchAddress thisEthersSigner
                                   handle0 inputProof,
                                 TxWait]
                    in (case wait_result w of
                          Inl e \<Rightarrow> (submit_finally (submit_failed e st2), l', calls)
                        | Inr status \<Rightarrow>
                            let st3 = st2\<lparr>message := ''Submit completed status='' @ status\<rparr>
                            in if isStale thisLinkMatchAddress thisChainId thisEthersSigner
                                    (refs_after_wait w) then
                                 (submit_finally (st3\<lparr>message := ''Ignore submit''\<rparr>), l', calls)
                               else
                                 (submit_finally st3, l', calls @ [RefreshPlayerResult]))))"

definition hook_submitGameResult ::
  "'l send \<Rightarrow> submit_world \<Rightarrow> int \<Rightarrow> hook \<Rightarrow> 'l \<Rightarrow> hook \<times> 'l \<times> call list" where
  "hook_submitGameResult send w scoreInt st l =
     (if isRefreshingRef st \<or> isSubmittingRef st then (st, l, [])
      else if falsy (linkMatch_address st) \<or> fhevm_instance st = None \<or> ethersSigner st = None
        then (st, l, [])
      else
        (case (linkMatch_address st, ethersSigner st) of
           (Some thisLinkMatchAddress, Some thisEthersSigner) \<Rightarrow>
             submit_run send w thisLinkMatchAddress (chainId st) thisEthersSigner scoreInt
               (st\<lparr>isSubmittingRef := True, isSubmitting := True,
                   message := ''Start submitting game result...''\<rparr>) l
         | _ \<Rightarrow> (st, l, [])))"

section \<open>Scores as JavaScript numbers\<close>











section \<open>Fixtures\<close>

subsection \<open>A test fixture\<close>

text \<open>
  The deployed address of the contract, the accounts \<open>alice\<close> and \<open>bob\<close> of the test suite,
  and a mock of the library in which a handle carries its plaintext in its low 32 bits and a
  proof is accepted when it is not empty.
\<close>

definition linkMatchContractAddress :: address where
  "linkMatchContractAddress = 0x01Bc5bd6B28485A312D0ba668EDAaAee1E840035"

definition alice :: address where
  "alice = 0x70997970C51812dc3A010C7d01b50e0d17dc79C8"

definition bob :: address where
  "bob = 0x3C44CdDdB6a900fa2b585dd299e03d12FA4293BC"

definition mock_fhevm :: backend where
  "mock_fhevm =
     \<lparr>FHE_fromExternal = (\<lambda>this sender e pr. if pr = [] then None else Some e),
      FHE_max = (\<lambda>a b. ucast (max (ucast a :: 32 word) (ucast b))),
      decrypt = ucast\<rparr>"

definition submission :: "address \<Rightarrow> uint256 \<Rightarrow> externalEuint32 \<Rightarrow> tx" where
  "submission p now e = \<lparr>tx_sender = p, tx_time = now, tx_input = e, tx_proof = [1]\<rparr>"







subsection \<open>A client fixture\<close>

text \<open>
  A hook state on Sepolia with the deployed contract, a signer and a 32-byte handle; refs that
  report no change and refs after a switch to another chain; collaborators that answer
  without failing; and a \<open>send\<close> that executes the contract's \<open>submitGameResult\<close> for
  \<open>alice\<close> on the mock library.
\<close>

definition fixture_handle :: string where
  "fixture_handle = ''0x'' @ replicate 64 (CHR ''a'')"

definition fixture_signer :: JsonRpcSigner where
  "fixture_signer = JsonRpcSigner ''0x70997970C51812dc3A010C7d01b50e0d17dc79C8''"

definition fixture_address :: string where
  "fixture_address = ''0x01Bc5bd6B28485A312D0ba668EDAaAee1E840035''"

definition fixture_hook :: hook where
  "fixture_hook =
     \<lparr>linkMatch_address = Some fixture_address,
      fhevm_instance = Some FhevmInstance,
      ethersSigner = Some fixture_signer,
      chainId = Some 11155111,
      playerResultHandle = Some fixture_handle,
      clearResult = None, clearResultRef = None,
      isRefreshing = False, isDecrypting = False, isSubmitting = False,
      isRefreshingRef = False, isDecryptingRef = False, isSubmittingRef = False,
      message = []\<rparr>"

definition refs_unchanged :: refs where
  "refs_unchanged =
     \<lparr>linkMatchRef_address = Some fixture_address,
      sameChain = (\<lambda>c. c = Some 11155111),
      sameSigner = (\<lambda>s. s = Some fixture_signer)\<rparr>"

definition refs_chain_switched :: refs where
  "refs_chain_switched =
     \<lparr>linkMatchRef_address = None,
      sameChain = (\<lambda>c. c = Some 31337),
      sameSigner = (\<lambda>s. s = Some fixture_signer)\<rparr>"

definition fixture_signature :: FhevmDecryptionSignature where
  "fixture_signature =
     \<lparr>publicKey = ''pk'', privateKey = ''sk'', signature = ''sig'', startTimestamp = 1700000000,
      durationDays = 365, userAddress = signer_address fixture_signer,
      contractAddresses = [fixture_address]\<rparr>"

definition decrypt_world_ok :: "string \<Rightarrow> int \<Rightarrow> decrypt_world" where
  "decrypt_world_ok h v =
     \<lparr>loadOrSign_result = Inr (Some fixture_signature),
      refs_after_sign = refs_unchanged,
      userDecrypt_result = Inr [h \<mapsto> ClearBigint v],
      refs_after_decrypt = refs_unchanged\<rparr>"

definition submit_world_switched :: submit_world where
  "submit_world_switched =
     \<lparr>encrypt_result = Inr (10, [1]),
      refs_after_encrypt = refs_chain_switched,
      wait_result = Inr ''1'',
      refs_after_wait = refs_chain_switched\<rparr>"

definition submit_world_ok :: submit_world where
  "submit_world_ok =
     \<lparr>encrypt_result = Inr (10, [1]),
      refs_after_encrypt = refs_unchanged,
      wait_result = Inr ''1'',
      refs_after_wait = refs_unchanged\<rparr>"

definition alice_send :: "ledger send" where
  "alice_send a sg h pr l =
     (case submitGameResult mock_fhevm linkMatchContractAddress alice 100 h pr l of
        Inl r \<Rightarrow> Inl (Error ''execution reverted'')
      | Inr l' \<Rightarrow> Inr (''0xabc'', l'))"


section \<open>One transaction\<close>

lemma apply_tx_rejected:
  "accepted be this t = None \<Longrightarrow> apply_tx be this t s = s"
  by (simp add: apply_tx_def accepted_def submitGameResult_def)

lemma players_apply_tx:
  "accepted be this t = Some h \<Longrightarrow>
   players (apply_tx be this t s) =
     (if hasSubmitted s (tx_sender t) then players s else players s @ [tx_sender t])"
  by (simp add: apply_tx_def accepted_def submitGameResult_def FHE_allow_def emit_def Let_def)

lemma hasSubmitted_apply_tx:
  "accepted be this t = Some h \<Longrightarrow>
   hasSubmitted (apply_tx be this t s) = (hasSubmitted s)(tx_sender t := True)"
  by (auto simp: apply_tx_def accepted_def submitGameResult_def FHE_allow_def emit_def Let_def fun_eq_iff)

lemma playerResults_apply_tx:
  "accepted be this t = Some h \<Longrightarrow>
   playerResults (apply_tx be this t s) =
     (playerResults s)(tx_sender t :=
        \<lparr>score = (if hasSubmitted s (tx_sender t)
                  then FHE_max be h (score (playerResults s (tx_sender t))) else h),
         player = tx_sender t, timestamp = tx_time t\<rparr>)"
  by (simp add: apply_tx_def accepted_def submitGameResult_def FHE_allow_def emit_def Let_def)


lemma run_txs_Nil: "run_txs be this [] s = s"
  by (simp add: run_txs_def)

lemma run_txs_Cons: "run_txs be this (t # ts) s = run_txs be this ts (apply_tx be this t s)"
  by (simp add: run_txs_def)

lemma run_txs_append: "run_txs be this (ts @ us) s = run_txs be this us (run_txs be this ts s)"
  by (simp add: run_txs_def)

section \<open>The loop of the enumeration\<close>

lemma getAllEncryptedScores_loop_eq:
  "length as = cnt \<Longrightarrow> length es = cnt \<Longrightarrow> cnt = length (players s) \<Longrightarrow> i \<le> cnt \<Longrightarrow>
   getAllEncryptedScores_loop s cnt i (as, es) =
     (take i as @ drop i (players s),
      take i es @ map (\<lambda>p. score (playerResults s p)) (drop i (players s)))"
proof (induction s cnt i "(as, es)" arbitrary: as es rule: getAllEncryptedScores_loop.induct)
  case (1 s cnt i as es)
  show ?case
  proof (cases "i < cnt")
    case True
    let ?p = "players s ! i"
    have step: "getAllEncryptedScores_loop s cnt i (as, es) =
       getAllEncryptedScores_loop s cnt (Suc i) (as[i := ?p], es[i := score (playerResults s ?p)])"
      using True by (subst getAllEncryptedScores_loop.simps) (simp add: Let_def)
    have IH: "getAllEncryptedScores_loop s cnt (Suc i) (as[i := ?p], es[i := score (playerResults s ?p)]) =
       (take (Suc i) (as[i := ?p]) @ drop (Suc i) (players s),
        take (Suc i) (es[i := score (playerResults s ?p)]) @
          map (\<lambda>p. score (playerResults s p)) (drop (Suc i) (players s)))"
      using "1.hyps"[OF True refl] "1.prems" True by simp
    have a: "take (Suc i) (as[i := ?p]) @ drop (Suc i) (players s) = take i as @ drop i (players s)"
      using True "1.prems"
      by (simp add: take_Suc_conv_app_nth Cons_nth_drop_Suc [symmetric])
    have b: "take (Suc i) (es[i := score (playerResults s ?p)]) @
          map (\<lambda>p. score (playerResults s p)) (drop (Suc i) (players s)) =
          take i es @ map (\<lambda>p. score (playerResults s p)) (drop i (players s))"
      using True "1.prems"
      by (simp add: take_Suc_conv_app_nth Cons_nth_drop_Suc[symmetric])
    show ?thesis using step IH a b by simp
  next
    case False
    with "1.prems" show ?thesis
      by (subst getAllEncryptedScores_loop.simps) simp
  qed
qed

lemma getAllEncryptedScores_eq:
  "getAllEncryptedScores s = (players s, map (\<lambda>p. score (playerResults s p)) (players s))"
  by (simp add: getAllEncryptedScores_def Let_def getAllEncryptedScores_loop_eq)

section \<open>Reachable states\<close>

lemma first_occurrences_snoc:
  "first_occurrences (xs @ [x]) =
     (if x \<in> set xs then first_occurrences xs else first_occurrences xs @ [x])"
  by (simp add: first_occurrences_def)

lemma set_first_occurrences: "set (first_occurrences xs) = set xs"
  by (simp add: first_occurrences_def)

lemma distinct_first_occurrences: "distinct (first_occurrences xs)"
  by (simp add: first_occurrences_def)

lemma accepted_senders_snoc:
  "accepted_senders be this (ts @ [t]) =
     (if accepted be this t = None then accepted_senders be this ts
      else accepted_senders be this ts @ [tx_sender t])"
  by (simp add: accepted_senders_def)

lemma submitted_plaintexts_snoc:
  "submitted_plaintexts be this p (ts @ [t]) =
     (case accepted be this t of
        None \<Rightarrow> submitted_plaintexts be this p ts
      | Some h \<Rightarrow> if tx_sender t = p then submitted_plaintexts be this p ts @ [decrypt be h]
                  else submitted_plaintexts be this p ts)"
  by (simp add: submitted_plaintexts_def List.map_filter_def split: option.splits)

lemma run_txs_snoc:
  "run_txs be this (ts @ [t]) s = apply_tx be this t (run_txs be this ts s)"
  by (simp add: run_txs_def)

lemma hasSubmitted_run:
  "hasSubmitted (run_txs be this ts deployed) p \<longleftrightarrow> p \<in> set (accepted_senders be this ts)"
proof (induction ts rule: rev_induct)
  case Nil
  show ?case by (simp add: run_txs_def deployed_def accepted_senders_def)
next
  case (snoc t ts)
  show ?case
  proof (cases "accepted be this t")
    case None
    with snoc show ?thesis
      by (simp add: run_txs_snoc apply_tx_rejected accepted_senders_snoc)
  next
    case (Some h)
    with snoc show ?thesis
      by (simp add: run_txs_snoc hasSubmitted_apply_tx accepted_senders_snoc)
  qed
qed

lemma players_run:
  "players (run_txs be this ts deployed) = first_occurrences (accepted_senders be this ts)"
proof (induction ts rule: rev_induct)
  case Nil
  show ?case
    by (simp add: run_txs_def deployed_def accepted_senders_def first_occurrences_def)
next
  case (snoc t ts)
  show ?case
  proof (cases "accepted be this t")
    case None
    with snoc show ?thesis
      by (simp add: run_txs_snoc apply_tx_rejected accepted_senders_snoc)
  next
    case (Some h)
    with snoc show ?thesis
      by (simp add: run_txs_snoc players_apply_tx accepted_senders_snoc
          first_occurrences_snoc hasSubmitted_run)
  qed
qed

lemma hasSubmitted_run_plaintexts:
  "hasSubmitted (run_txs be this ts deployed) p \<longleftrightarrow> submitted_plaintexts be this p ts \<noteq> []"
proof -
  have "set (accepted_senders be this ts) = {tx_sender t | t. t \<in> set ts \<and> accepted be this t \<noteq> None}"
    by (auto simp: accepted_senders_def)
  moreover have "submitted_plaintexts be this p ts \<noteq> [] \<longleftrightarrow>
      (\<exists>t \<in> set ts. tx_sender t = p \<and> accepted be this t \<noteq> None)"
    by (auto simp: submitted_plaintexts_def List.map_filter_def filter_empty_conv split: if_splits)
  ultimately show ?thesis
    by (auto simp: hasSubmitted_run)
qed

lemma never_submitted_zero:
  "submitted_plaintexts be this p ts = [] \<Longrightarrow>
   playerResults (run_txs be this ts deployed) p = zero_result"
proof (induction ts rule: rev_induct)
  case Nil
  show ?case by (simp add: run_txs_def deployed_def)
next
  case (snoc t ts)
  show ?case
  proof (cases "accepted be this t")
    case None
    with snoc show ?thesis
      by (simp add: run_txs_snoc apply_tx_rejected submitted_plaintexts_snoc)
  next
    case (Some h)
    with snoc.prems have "tx_sender t \<noteq> p" and "submitted_plaintexts be this p ts = []"
      by (auto simp: submitted_plaintexts_snoc split: if_splits)
    with snoc.IH Some show ?thesis
      by (simp add: run_txs_snoc playerResults_apply_tx)
  qed
qed

lemma decrypt_run_max:
  assumes law: "\<forall>a b. decrypt be (FHE_max be a b) = max (decrypt be a) (decrypt be b)"
  shows "submitted_plaintexts be this p ts \<noteq> [] \<Longrightarrow>
     decrypt be (score (playerResults (run_txs be this ts deployed) p)) =
       Max (set (submitted_plaintexts be this p ts))"
proof (induction ts rule: rev_induct)
  case Nil
  then show ?case by (simp add: submitted_plaintexts_def List.map_filter_def)
next
  case (snoc t ts)
  let ?S = "run_txs be this ts deployed"
  let ?ps = "submitted_plaintexts be this p ts"
  show ?case
  proof (cases "accepted be this t")
    case None
    with snoc show ?thesis
      by (simp add: run_txs_snoc apply_tx_rejected submitted_plaintexts_snoc)
  next
    case (Some h)
    show ?thesis
    proof (cases "tx_sender t = p")
      case False
      with snoc Some show ?thesis
        by (simp add: run_txs_snoc playerResults_apply_tx submitted_plaintexts_snoc)
    next
      case True
      have ps: "submitted_plaintexts be this p (ts @ [t]) = ?ps @ [decrypt be h]"
        using Some True by (simp add: submitted_plaintexts_snoc)
      show ?thesis
      proof (cases "?ps = []")
        case e: True
        then have "\<not> hasSubmitted ?S p"
          by (simp add: hasSubmitted_run_plaintexts)
        then show ?thesis
          using Some True e ps by (simp add: run_txs_snoc playerResults_apply_tx)
      next
        case ne: False
        then have sub: "hasSubmitted ?S p"
          by (simp add: hasSubmitted_run_plaintexts)
        have cur: "decrypt be (score (playerResults ?S p)) = Max (set ?ps)"
          using snoc.IH ne by simp
        have "decrypt be (score (playerResults (run_txs be this (ts @ [t]) deployed) p)) =
              max (decrypt be h) (Max (set ?ps))"
          using Some True sub law cur by (simp add: run_txs_snoc playerResults_apply_tx)
        also have "\<dots> = Max (set (?ps @ [decrypt be h]))"
          using ne by (simp add: Max_insert)
        finally show ?thesis using ps by simp
      qed
    qed
  qed
qed

lemma submitted_plaintexts_perm:
  "mset ts' = mset ts \<Longrightarrow>
   set (submitted_plaintexts be this p ts') = set (submitted_plaintexts be this p ts)"
proof -
  assume "mset ts' = mset ts"
  then have "set ts' = set ts" by (rule mset_eq_setD)
  then show ?thesis
    by (simp add: submitted_plaintexts_def List.map_filter_def)
qed

text \<open>
  Claim C1. Whenever the library's \<open>FHE_max\<close> denotes the maximum of the two plaintexts,
  after any list of transactions applied to the freshly deployed contract the handle stored
  for a player who submitted at least once decrypts to the maximum of all plaintexts that
  player submitted (transactions of other players and rejected transactions may be
  interleaved), and every reordering of the transactions gives the same decrypted value.
\<close>

theorem final_score_is_max:
  assumes "\<forall>a b. decrypt be (FHE_max be a b) = max (decrypt be a) (decrypt be b)"
  shows "(submitted_plaintexts be this p ts \<noteq> [] \<longrightarrow>
            decrypt be (score (playerResults (run_txs be this ts deployed) p)) =
              Max (set (submitted_plaintexts be this p ts))) \<and>
         (\<forall>ts'. mset ts' = mset ts \<longrightarrow>
            decrypt be (score (playerResults (run_txs be this ts' deployed) p)) =
              decrypt be (score (playerResults (run_txs be this ts deployed) p)))"
proof (intro conjI allI impI)
  assume "submitted_plaintexts be this p ts \<noteq> []"
  then show "decrypt be (score (playerResults (run_txs be this ts deployed) p)) =
      Max (set (submitted_plaintexts be this p ts))"
    using assms by (rule decrypt_run_max [rotated])
next
  fix ts' assume perm: "mset ts' = mset ts"
  have s: "set (submitted_plaintexts be this p ts') = set (submitted_plaintexts be this p ts)"
    using perm by (rule submitted_plaintexts_perm)
  show "decrypt be (score (playerResults (run_txs be this ts' deployed) p)) =
        decrypt be (score (playerResults (run_txs be this ts deployed) p))"
  proof (cases "submitted_plaintexts be this p ts = []")
    case True
    with s have "submitted_plaintexts be this p ts' = []" by simp
    with True show ?thesis by (simp add: never_submitted_zero)
  next
    case False
    with s have "submitted_plaintexts be this p ts' \<noteq> []" by auto
    with False s show ?thesis
      using decrypt_run_max [OF assms] by simp
  qed
qed

lemma mock_fhevm_max_law:
  "\<forall>a b. decrypt mock_fhevm (FHE_max mock_fhevm a b) =
         max (decrypt mock_fhevm a) (decrypt mock_fhevm b)"
  by (simp add: mock_fhevm_def ucast_up_ucast_id is_up)

lemmas ledger_eval =
  run_txs_def apply_tx_def submitGameResult_def FHE_allow_def emit_def deployed_def
  zero_result_def mock_fhevm_def submission_def accepted_def submitted_plaintexts_def
  accepted_senders_def List.map_filter_def Let_def alice_def bob_def
  linkMatchContractAddress_def

theorem final_score_is_max_witness:
  "(\<forall>a b. decrypt mock_fhevm (FHE_max mock_fhevm a b) =
          max (decrypt mock_fhevm a) (decrypt mock_fhevm b)) \<and>
   submitted_plaintexts mock_fhevm linkMatchContractAddress alice
     [submission alice 1 10, submission bob 2 99, submission alice 3 7, submission alice 4 15]
     = [10, 7, 15] \<and>
   decrypt mock_fhevm (score (playerResults (run_txs mock_fhevm linkMatchContractAddress
     [submission alice 1 10, submission bob 2 99, submission alice 3 7, submission alice 4 15]
     deployed) alice)) = 15 \<and>
   decrypt mock_fhevm (score (playerResults (run_txs mock_fhevm linkMatchContractAddress
     [submission alice 4 15, submission alice 3 7, submission bob 2 99, submission alice 1 10]
     deployed) alice)) = 15"
proof -
  let ?ts = "[submission alice 1 10, submission bob 2 99, submission alice 3 7, submission alice 4 15]"
  let ?ts' = "[submission alice 4 15, submission alice 3 7, submission bob 2 99, submission alice 1 10]"
  have ps: "submitted_plaintexts mock_fhevm linkMatchContractAddress alice ?ts = [10, 7, 15]"
    by (simp add: ledger_eval)
  have perm: "mset ?ts' = mset ?ts"
    by (simp add: add.commute add.left_commute)
  note main = final_score_is_max [OF mock_fhevm_max_law, of linkMatchContractAddress alice ?ts]
  have m: "decrypt mock_fhevm (score (playerResults
      (run_txs mock_fhevm linkMatchContractAddress ?ts deployed) alice)) = Max (set [10, 7, 15])"
    using main ps by simp
  have m': "decrypt mock_fhevm (score (playerResults
      (run_txs mock_fhevm linkMatchContractAddress ?ts' deployed) alice)) =
      decrypt mock_fhevm (score (playerResults
      (run_txs mock_fhevm linkMatchContractAddress ?ts deployed) alice))"
    using main perm by blast
  have "Max (set [10, 7, 15 :: 32 word]) = 15" by simp
  with m m' ps mock_fhevm_max_law show ?thesis by simp
qed

lemma submitGameResult_as_apply_tx:
  "submitGameResult be this p now e pr s = Inr s' \<Longrightarrow>
   s' = apply_tx be this \<lparr>tx_sender = p, tx_time = now, tx_input = e, tx_proof = pr\<rparr> s \<and>
   accepted be this \<lparr>tx_sender = p, tx_time = now, tx_input = e, tx_proof = pr\<rparr> \<noteq> None"
  by (auto simp: apply_tx_def accepted_def submitGameResult_def split: option.splits)

lemma submitGameResult_accepts:
  "FHE_fromExternal be this p e pr = Some h \<Longrightarrow>
   submitGameResult be this p now e pr s =
     Inr (apply_tx be this \<lparr>tx_sender = p, tx_time = now, tx_input = e, tx_proof = pr\<rparr> s)"
  by (simp add: apply_tx_def submitGameResult_def Let_def)

text \<open>
  Claim C2. A player who has already submitted and submits an input whose proof is accepted
  is not rejected: the call returns, the stored handle is \<open>FHE_max\<close> of the new handle and the
  stored one, the timestamp is that of the current block, and the array \<open>players\<close> (hence
  the player's position in it) and the mapping \<open>hasSubmitted\<close> are unchanged.
\<close>

theorem resubmission_accepted:
  assumes "hasSubmitted s p" and "FHE_fromExternal be this p e pr = Some h"
  shows "\<exists>s'. submitGameResult be this p now e pr s = Inr s' \<and>
           playerResults s' p =
             \<lparr>score = FHE_max be h (score (playerResults s p)), player = p, timestamp = now\<rparr> \<and>
           players s' = players s \<and>
           hasSubmitted s' = hasSubmitted s \<and>
           (\<forall>q. q \<noteq> p \<longrightarrow> playerResults s' q = playerResults s q)"
  using assms
  by (auto simp: submitGameResult_def FHE_allow_def emit_def Let_def)

theorem resubmission_accepted_witness:
  "hasSubmitted (run_txs mock_fhevm linkMatchContractAddress [submission alice 1 10] deployed) alice \<and>
   FHE_fromExternal mock_fhevm linkMatchContractAddress alice 15 [1] = Some 15 \<and>
   (\<exists>s'. submitGameResult mock_fhevm linkMatchContractAddress alice 2 15 [1]
            (run_txs mock_fhevm linkMatchContractAddress [submission alice 1 10] deployed) = Inr s' \<and>
         playerResults s' alice = \<lparr>score = 15, player = alice, timestamp = 2\<rparr> \<and>
         players s' = [alice])"
proof -
  let ?S = "run_txs mock_fhevm linkMatchContractAddress [submission alice 1 10] deployed"
  have a: "hasSubmitted ?S alice" by (simp add: ledger_eval)
  have b: "FHE_fromExternal mock_fhevm linkMatchContractAddress alice 15 [1] = Some 15"
    by (simp add: mock_fhevm_def)
  have c: "FHE_max mock_fhevm 15 (score (playerResults ?S alice)) = 15"
    by (simp add: ledger_eval)
  have d: "players ?S = [alice]" by (simp add: ledger_eval)
  from resubmission_accepted [OF a b, of 2] c d a b show ?thesis by auto
qed











lemma submit_extends_run:
  "FHE_fromExternal be this p e pr = Some h \<Longrightarrow>
   submitGameResult be this p now e pr (run_txs be this ts s) =
     Inr (run_txs be this
            (ts @ [\<lparr>tx_sender = p, tx_time = now, tx_input = e, tx_proof = pr\<rparr>]) s)"
  by (simp add: run_txs_snoc submitGameResult_accepts)

text \<open>
  Claim C5. In every state reached from the deployed contract: an accepted call by a player
  who has not submitted yet appends exactly that player to \<open>players\<close>; an accepted call by a
  player who has submitted leaves \<open>players\<close>, hence \<open>getPlayerCount\<close>, unchanged; no player
  occurs twice in \<open>players\<close>; \<open>getAllEncryptedScores\<close> returns the players in the order
  of their first accepted submission, each with the stored handle, and both arrays have
  length \<open>getPlayerCount\<close>.
\<close>

theorem participant_index:
  assumes "S = run_txs be this ts deployed"
  shows "(\<forall>p now e pr S'. submitGameResult be this p now e pr S = Inr S' \<and> \<not> hasSubmitted S p \<longrightarrow>
            players S' = players S @ [p] \<and> getPlayerCount S' = Suc (getPlayerCount S)) \<and>
         (\<forall>p now e pr S'. submitGameResult be this p now e pr S = Inr S' \<and> hasSubmitted S p \<longrightarrow>
            players S' = players S \<and> getPlayerCount S' = getPlayerCount S) \<and>
         distinct (players S) \<and>
         fst (getAllEncryptedScores S) = first_occurrences (accepted_senders be this ts) \<and>
         snd (getAllEncryptedScores S) =
           map (\<lambda>p. score (playerResults S p)) (fst (getAllEncryptedScores S)) \<and>
         length (fst (getAllEncryptedScores S)) = getPlayerCount S \<and>
         length (snd (getAllEncryptedScores S)) = getPlayerCount S"
proof -
  have step: "players S' = (if hasSubmitted S p then players S else players S @ [p])"
    if "submitGameResult be this p now e pr S = Inr S'" for p now e pr S'
  proof -
    let ?t = "\<lparr>tx_sender = p, tx_time = now, tx_input = e, tx_proof = pr\<rparr>"
    from that have "S' = apply_tx be this ?t S" and "accepted be this ?t \<noteq> None"
      using submitGameResult_as_apply_tx by blast+
    then show ?thesis by (auto simp: players_apply_tx)
  qed
  have pl: "players S = first_occurrences (accepted_senders be this ts)"
    unfolding assms by (rule players_run)
  show ?thesis
    using step pl
    by (auto simp: getPlayerCount_def getAllEncryptedScores_eq distinct_first_occurrences)
qed

theorem participant_index_witness:
  "submitGameResult mock_fhevm linkMatchContractAddress bob 200 99 [1]
     (run_txs mock_fhevm linkMatchContractAddress [submission alice 100 10] deployed) =
     Inr (run_txs mock_fhevm linkMatchContractAddress
            [submission alice 100 10, submission bob 200 99] deployed) \<and>
   \<not> hasSubmitted (run_txs mock_fhevm linkMatchContractAddress [submission alice 100 10] deployed) bob \<and>
   players (run_txs mock_fhevm linkMatchContractAddress
            [submission alice 100 10, submission bob 200 99] deployed) =
     players (run_txs mock_fhevm linkMatchContractAddress [submission alice 100 10] deployed) @ [bob] \<and>
   submitGameResult mock_fhevm linkMatchContractAddress alice 300 7 [1]
     (run_txs mock_fhevm linkMatchContractAddress
        [submission alice 100 10, submission bob 200 99] deployed) =
     Inr (run_txs mock_fhevm linkMatchContractAddress
            [submission alice 100 10, submission bob 200 99, submission alice 300 7] deployed) \<and>
   hasSubmitted (run_txs mock_fhevm linkMatchContractAddress
        [submission alice 100 10, submission bob 200 99] deployed) alice \<and>
   getPlayerCount (run_txs mock_fhevm linkMatchContractAddress
        [submission alice 100 10, submission bob 200 99, submission alice 300 7] deployed) =
     getPlayerCount (run_txs mock_fhevm linkMatchContractAddress
        [submission alice 100 10, submission bob 200 99] deployed) \<and>
   fst (getAllEncryptedScores (run_txs mock_fhevm linkMatchContractAddress
     [submission alice 100 10, submission bob 200 99, submission alice 300 7] deployed)) =
     [alice, bob]"
proof -
  let ?c = linkMatchContractAddress
  let ?S1 = "run_txs mock_fhevm ?c [submission alice 100 10] deployed"
  let ?S2 = "run_txs mock_fhevm ?c [submission alice 100 10, submission bob 200 99] deployed"
  let ?S3 = "run_txs mock_fhevm ?c
               [submission alice 100 10, submission bob 200 99, submission alice 300 7] deployed"
  have ne: "alice \<noteq> bob" by (simp add: alice_def bob_def)
  have fo: "first_occurrences (accepted_senders mock_fhevm ?c
              [submission alice 100 10, submission bob 200 99, submission alice 300 7]) = [alice, bob]"
    using ne by (simp add: first_occurrences_def accepted_senders_def accepted_def
        mock_fhevm_def submission_def)
  have call2: "submitGameResult mock_fhevm ?c bob 200 99 [1] ?S1 = Inr ?S2"
    using submit_extends_run [of mock_fhevm ?c bob 99 "[1]" 99 200 "[submission alice 100 10]" deployed]
    by (simp add: mock_fhevm_def submission_def)
  have call3: "submitGameResult mock_fhevm ?c alice 300 7 [1] ?S2 = Inr ?S3"
    using submit_extends_run [of mock_fhevm ?c alice 7 "[1]" 7 300
        "[submission alice 100 10, submission bob 200 99]" deployed]
    by (simp add: mock_fhevm_def submission_def)
  have nb: "\<not> hasSubmitted ?S1 bob"
    using ne by (simp add: hasSubmitted_run accepted_senders_def accepted_def
        mock_fhevm_def submission_def)
  have ha: "hasSubmitted ?S2 alice"
    by (simp add: hasSubmitted_run accepted_senders_def accepted_def
        mock_fhevm_def submission_def)
  note m1 = participant_index [OF refl, of mock_fhevm ?c "[submission alice 100 10]"]
  note m2 = participant_index [OF refl, of mock_fhevm ?c
              "[submission alice 100 10, submission bob 200 99]"]
  note m3 = participant_index [OF refl, of mock_fhevm ?c
              "[submission alice 100 10, submission bob 200 99, submission alice 300 7]"]
  have g: "fst (getAllEncryptedScores ?S3) = [alice, bob]"
    using m3 [THEN conjunct2, THEN conjunct2, THEN conjunct2, THEN conjunct1] fo
    by (rule trans)
  have p2: "players ?S2 = players ?S1 @ [bob]"
    using m1 [THEN conjunct1, rule_format, OF conjI, OF call2 nb] by (rule conjunct1)
  have c3: "getPlayerCount ?S3 = getPlayerCount ?S2"
    using m2 [THEN conjunct2, THEN conjunct1, rule_format, OF conjI, OF call3 ha]
    by (rule conjunct2)
  show ?thesis
    by (intro conjI) (rule call2 nb p2 call3 ha c3 g)+
qed

text \<open>
  Claim C6. In every state reached from the deployed contract, \<open>getPlayerResult p\<close> reverts
  exactly when no submission of \<open>p\<close> was ever accepted; exactly then
  \<open>checkPlayerSubmitted p\<close> is false and \<open>p\<close> is absent from the enumeration; when \<open>p\<close>
  has submitted, \<open>getPlayerResult p\<close> returns the handle stored for \<open>p\<close>.
\<close>

theorem getPlayerResult_fails_iff_never_submitted:
  assumes "S = run_txs be this ts deployed"
  shows "(getPlayerResult S p = Inl PlayerHasNotSubmitted \<longleftrightarrow>
            p \<notin> set (accepted_senders be this ts)) \<and>
         (isl (getPlayerResult S p) \<longleftrightarrow> p \<notin> set (accepted_senders be this ts)) \<and>
         (checkPlayerSubmitted S p \<longleftrightarrow> p \<in> set (accepted_senders be this ts)) \<and>
         (p \<in> set (fst (getAllEncryptedScores S)) \<longleftrightarrow> p \<in> set (accepted_senders be this ts)) \<and>
         (p \<in> set (accepted_senders be this ts) \<longrightarrow>
            getPlayerResult S p = Inr (score (playerResults S p)))"
proof -
  have hs: "hasSubmitted S p \<longleftrightarrow> p \<in> set (accepted_senders be this ts)"
    unfolding assms by (rule hasSubmitted_run)
  have pl: "set (players S) = set (accepted_senders be this ts)"
    unfolding assms by (simp add: players_run set_first_occurrences)
  show ?thesis
    using hs pl
    by (simp add: getPlayerResult_def checkPlayerSubmitted_def getAllEncryptedScores_eq Let_def)
qed

theorem getPlayerResult_fails_iff_never_submitted_witness:
  "bob \<notin> set (accepted_senders mock_fhevm linkMatchContractAddress [submission alice 100 10]) \<and>
   alice \<in> set (accepted_senders mock_fhevm linkMatchContractAddress [submission alice 100 10]) \<and>
   getPlayerResult (run_txs mock_fhevm linkMatchContractAddress [submission alice 100 10] deployed) bob
     = Inl PlayerHasNotSubmitted \<and>
   \<not> checkPlayerSubmitted
       (run_txs mock_fhevm linkMatchContractAddress [submission alice 100 10] deployed) bob \<and>
   bob \<notin> set (fst (getAllEncryptedScores
       (run_txs mock_fhevm linkMatchContractAddress [submission alice 100 10] deployed))) \<and>
   getPlayerResult (run_txs mock_fhevm linkMatchContractAddress [submission alice 100 10] deployed) alice
     = Inr 10"
proof -
  let ?c = linkMatchContractAddress
  let ?ts = "[submission alice 100 10]"
  let ?S = "run_txs mock_fhevm ?c ?ts deployed"
  have ne: "alice \<noteq> bob" by (simp add: alice_def bob_def)
  have nb: "bob \<notin> set (accepted_senders mock_fhevm ?c ?ts)"
    using ne by (simp add: accepted_senders_def accepted_def mock_fhevm_def submission_def)
  have ia: "alice \<in> set (accepted_senders mock_fhevm ?c ?ts)"
    by (simp add: accepted_senders_def accepted_def mock_fhevm_def submission_def)
  have sc: "score (playerResults ?S alice) = 10" by (simp add: ledger_eval)
  note mb = getPlayerResult_fails_iff_never_submitted [OF refl, of mock_fhevm ?c ?ts bob]
  note ma = getPlayerResult_fails_iff_never_submitted [OF refl, of mock_fhevm ?c ?ts alice]
  from mb nb have b: "getPlayerResult ?S bob = Inl PlayerHasNotSubmitted \<and>
      \<not> checkPlayerSubmitted ?S bob \<and> bob \<notin> set (fst (getAllEncryptedScores ?S))"
    by blast
  from ma ia have "getPlayerResult ?S alice = Inr (score (playerResults ?S alice))" by blast
  with sc have a: "getPlayerResult ?S alice = Inr 10" by simp
  from nb ia b a show ?thesis by blast
qed

text \<open>
  Claim C7. In every state reached from the deployed contract, \<open>getPlayerByIndex i\<close> reverts
  exactly when \<open>i\<close> is at least \<open>getPlayerCount\<close>; in particular it reverts at
  \<open>getPlayerCount\<close> itself; below it, the call returns the \<open>i\<close>-th player in the order of
  first accepted submissions.
\<close>

theorem getPlayerByIndex_fails_iff_out_of_range:
  assumes "S = run_txs be this ts deployed"
  shows "(getPlayerByIndex S i = Inl IndexOutOfBounds \<longleftrightarrow> getPlayerCount S \<le> i) \<and>
         (isl (getPlayerByIndex S i) \<longleftrightarrow> getPlayerCount S \<le> i) \<and>
         getPlayerByIndex S (getPlayerCount S) = Inl IndexOutOfBounds \<and>
         getPlayerCount S = length (first_occurrences (accepted_senders be this ts)) \<and>
         (i < getPlayerCount S \<longrightarrow>
            getPlayerByIndex S i = Inr (first_occurrences (accepted_senders be this ts) ! i))"
proof -
  have pl: "players S = first_occurrences (accepted_senders be this ts)"
    unfolding assms by (rule players_run)
  show ?thesis
    by (auto simp: getPlayerByIndex_def getPlayerCount_def pl)
qed

theorem getPlayerByIndex_fails_iff_out_of_range_witness:
  "getPlayerCount (run_txs mock_fhevm linkMatchContractAddress
     [submission alice 100 10, submission bob 200 99, submission alice 300 7] deployed) = 2 \<and>
   getPlayerByIndex (run_txs mock_fhevm linkMatchContractAddress
     [submission alice 100 10, submission bob 200 99, submission alice 300 7] deployed) 0 = Inr alice \<and>
   getPlayerByIndex (run_txs mock_fhevm linkMatchContractAddress
     [submission alice 100 10, submission bob 200 99, submission alice 300 7] deployed) 1 = Inr bob \<and>
   getPlayerByIndex (run_txs mock_fhevm linkMatchContractAddress
     [submission alice 100 10, submission bob 200 99, submission alice 300 7] deployed) 2
     = Inl IndexOutOfBounds"
proof -
  let ?c = linkMatchContractAddress
  let ?ts = "[submission alice 100 10, submission bob 200 99, submission alice 300 7]"
  let ?S = "run_txs mock_fhevm ?c ?ts deployed"
  have ne: "alice \<noteq> bob" by (simp add: alice_def bob_def)
  have fo: "first_occurrences (accepted_senders mock_fhevm ?c ?ts) = [alice, bob]"
    using ne by (simp add: first_occurrences_def accepted_senders_def accepted_def
        mock_fhevm_def submission_def)
  note m = getPlayerByIndex_fails_iff_out_of_range [OF refl, of mock_fhevm ?c ?ts]
  from m [of 0] fo have cnt: "getPlayerCount ?S = 2" by simp
  from m [of 0] fo cnt have i0: "getPlayerByIndex ?S 0 = Inr alice" by simp
  from m [of 1] fo cnt have i1: "getPlayerByIndex ?S 1 = Inr bob" by simp
  from m [of 2] cnt have i2: "getPlayerByIndex ?S 2 = Inl IndexOutOfBounds" by simp
  from cnt i0 i1 i2 show ?thesis by blast
qed

section \<open>The client workflows\<close>

lemma submit_run_stale:
  assumes "isStale a c sg (refs_after_encrypt w)"
  shows "submit_run send w a c sg scoreInt st l =
     (case encrypt_result w of
        Inl e \<Rightarrow> (submit_finally (submit_failed e st), l, [Encrypt a (signer_address sg) scoreInt])
      | Inr x \<Rightarrow> (submit_finally (st\<lparr>message := ''Ignore submit''\<rparr>), l,
                  [Encrypt a (signer_address sg) scoreInt]))"
  using assms by (simp add: submit_run_def split: sum.splits prod.splits)

text \<open>
  Claim C3. When the first \<open>isStale()\<close> of the submission workflow, evaluated after
  \<open>encrypt()\<close> has returned, finds that \<open>linkMatchRef\<close> no longer holds the captured address,
  or that \<open>sameChain\<close> or \<open>sameSigner\<close> rejects the captured chain or signer, the workflow
  makes no \<open>submitGameResult\<close> call and the ledger is as it was. If the workflow was started
  and the encryption succeeded, all that changes is the status message, set to
  \<open>Ignore submit\<close>, and the only call made is the encryption.
\<close>

theorem stale_submission_is_discarded:
  assumes "linkMatch_address st = Some a" and "ethersSigner st = Some sg"
    and "isStale a (chainId st) sg (refs_after_encrypt w)"
  shows "fst (snd (hook_submitGameResult send w scoreInt st l)) = l \<and>
         \<not> list_ex is_submit_call (snd (snd (hook_submitGameResult send w scoreInt st l))) \<and>
         (\<not> isRefreshingRef st \<and> \<not> isSubmittingRef st \<and> a \<noteq> [] \<and> fhevm_instance st \<noteq> None \<and>
          (\<exists>x. encrypt_result w = Inr x) \<longrightarrow>
            hook_submitGameResult send w scoreInt st l =
              (st\<lparr>isSubmittingRef := False, isSubmitting := False, message := ''Ignore submit''\<rparr>,
               l, [Encrypt a (signer_address sg) scoreInt]))"
  using assms
  by (auto simp: hook_submitGameResult_def submit_run_stale submit_finally_def falsy_def
      split: sum.splits)

text \<open>
  Claim C8. When the cached clear value \<open>clearResultRef\<close> carries the handle that
  \<open>playerResultHandle\<close> holds, \<open>decryptPlayerResult\<close> returns at once: no call to
  \<open>loadOrSign\<close> or \<open>userDecrypt\<close>, and the state, with the cached clear value, is unchanged.
  The same holds for a click on the page's button.
\<close>

theorem decrypt_short_circuit:
  assumes "playerResultHandle st = Some h" and "clearResultRef st = Some cv"
    and "cv_handle cv = h"
  shows "decryptPlayerResult w st = (st, [], None) \<and> Home_decrypt_onClick w st = (st, [], None)"
  using assms
  by (auto simp: decryptPlayerResult_def Home_decrypt_onClick_def split: option.splits)

lemma decrypt_run_calls:
  "list_ex is_backend_decrypt_call (fst (snd (decrypt_run w a c h sg st)))"
  by (simp add: decrypt_run_def Let_def split: sum.splits option.splits)

lemma userDecrypt_needs_long_handle:
  "UserDecrypt h' a' sig \<in> set (fst (snd (decryptPlayerResult w st))) \<Longrightarrow>
   playerResultHandle st = Some h' \<and> 66 \<le> length h'"
  by (auto simp: decryptPlayerResult_def decrypt_run_def Let_def
      split: if_splits option.splits sum.splits)

lemma decryptPlayerResult_calls:
  "list_ex is_backend_decrypt_call (fst (snd (decryptPlayerResult w st))) \<Longrightarrow>
   \<exists>h. playerResultHandle st = Some h \<and> h \<noteq> []"
  by (auto simp: decryptPlayerResult_def split: if_splits option.splits)

lemma decryptPlayerResult_no_handle:
  "playerResultHandle st = None \<or> playerResultHandle st = Some [] \<Longrightarrow>
   fst (snd (decryptPlayerResult w st)) = [] \<and>
   (clearResultRef (fst (decryptPlayerResult w st)) = clearResultRef st \<or>
    clearResultRef (fst (decryptPlayerResult w st)) = None) \<and>
   (clearResult (fst (decryptPlayerResult w st)) = clearResult st \<or>
    clearResult (fst (decryptPlayerResult w st)) = None)"
  by (auto simp: decryptPlayerResult_def split: if_splits option.splits)

lemma Home_decrypt_onClick_calls:
  assumes c: "list_ex is_backend_decrypt_call (fst (snd (Home_decrypt_onClick w st)))"
  shows "\<exists>h. playerResultHandle st = Some h \<and> h \<noteq> [] \<and> h \<noteq> ZeroHash"
proof -
  have g: "canDecrypt st"
  proof (rule ccontr)
    assume "\<not> canDecrypt st"
    then have "Home_decrypt_onClick w st = (st, [], None)"
      by (simp add: Home_decrypt_onClick_def)
    with c show False by simp
  qed
  then have "Home_decrypt_onClick w st = decryptPlayerResult w st"
    by (simp add: Home_decrypt_onClick_def)
  with c have "list_ex is_backend_decrypt_call (fst (snd (decryptPlayerResult w st)))"
    by simp
  then obtain h where h: "playerResultHandle st = Some h" "h \<noteq> []"
    using decryptPlayerResult_calls by blast
  from g h(1) have "h \<noteq> ZeroHash" by (simp add: canDecrypt_def)
  with h show ?thesis by blast
qed

lemma Home_decrypt_onClick_no_handle:
  assumes a: "playerResultHandle st = None \<or> playerResultHandle st = Some [] \<or>
             playerResultHandle st = Some ZeroHash"
  shows "fst (snd (Home_decrypt_onClick w st)) = [] \<and>
      (clearResultRef (fst (Home_decrypt_onClick w st)) = clearResultRef st \<or>
       clearResultRef (fst (Home_decrypt_onClick w st)) = None) \<and>
      (clearResult (fst (Home_decrypt_onClick w st)) = clearResult st \<or>
       clearResult (fst (Home_decrypt_onClick w st)) = None)"
proof (cases "canDecrypt st")
  case False
  then have "Home_decrypt_onClick w st = (st, [], None)"
    by (simp add: Home_decrypt_onClick_def)
  then show ?thesis by simp
next
  case True
  then have e: "Home_decrypt_onClick w st = decryptPlayerResult w st"
    by (simp add: Home_decrypt_onClick_def)
  from True have "playerResultHandle st \<noteq> None" and "playerResultHandle st \<noteq> Some ZeroHash"
    by (auto simp: canDecrypt_def split: option.splits)
  with a have "playerResultHandle st = None \<or> playerResultHandle st = Some []" by blast
  from decryptPlayerResult_no_handle [OF this, of w] show ?thesis
    unfolding e .
qed

text \<open>
  Claim C9. The decrypt action, as the page offers it, calls \<open>loadOrSign\<close> or \<open>userDecrypt\<close>
  only when \<open>playerResultHandle\<close> is present, not empty and not the all-zero handle
  \<open>ethers.ZeroHash\<close>. For an absent, empty or all-zero handle it makes no call, and the cached
  clear value is left as it was or cleared: nothing is cached.
\<close>

theorem decrypt_requires_handle:
  "(list_ex is_backend_decrypt_call (fst (snd (Home_decrypt_onClick w st))) \<longrightarrow>
      (\<exists>h. playerResultHandle st = Some h \<and> h \<noteq> [] \<and> h \<noteq> ZeroHash)) \<and>
   (playerResultHandle st = None \<or> playerResultHandle st = Some [] \<or>
    playerResultHandle st = Some ZeroHash \<longrightarrow>
      fst (snd (Home_decrypt_onClick w st)) = [] \<and>
      (clearResultRef (fst (Home_decrypt_onClick w st)) = clearResultRef st \<or>
       clearResultRef (fst (Home_decrypt_onClick w st)) = None) \<and>
      (clearResult (fst (Home_decrypt_onClick w st)) = clearResult st \<or>
       clearResult (fst (Home_decrypt_onClick w st)) = None))"
proof -
  have 1: "list_ex is_backend_decrypt_call (fst (snd (Home_decrypt_onClick w st))) \<longrightarrow>
      (\<exists>h. playerResultHandle st = Some h \<and> h \<noteq> [] \<and> h \<noteq> ZeroHash)"
    by (rule impI) (rule Home_decrypt_onClick_calls)
  have 2: "playerResultHandle st = None \<or> playerResultHandle st = Some [] \<or>
    playerResultHandle st = Some ZeroHash \<longrightarrow>
      fst (snd (Home_decrypt_onClick w st)) = [] \<and>
      (clearResultRef (fst (Home_decrypt_onClick w st)) = clearResultRef st \<or>
       clearResultRef (fst (Home_decrypt_onClick w st)) = None) \<and>
      (clearResult (fst (Home_decrypt_onClick w st)) = clearResult st \<or>
       clearResult (fst (Home_decrypt_onClick w st)) = None)"
    by (rule impI) (rule Home_decrypt_onClick_no_handle)
  from 1 2 show ?thesis by (intro conjI)
qed

lemmas hook_eval =
  fixture_hook_def falsy_def fixture_address_def fixture_signer_def isStale_def
  refs_unchanged_def refs_chain_switched_def fixture_handle_def ZeroHash_def

lemma fresh_submission_reaches_ledger:
  "hook_submitGameResult alice_send submit_world_ok 300 fixture_hook deployed =
     (fixture_hook\<lparr>message := ''Submit completed status=1''\<rparr>,
      run_txs mock_fhevm linkMatchContractAddress [submission alice 100 10] deployed,
      [Encrypt fixture_address (signer_address fixture_signer) 300,
       SubmitGameResultTx fixture_address fixture_signer 10 [1],
       TxWait, RefreshPlayerResult])"
proof -
  have s: "alice_send a sg 10 [1] deployed =
      Inr (''0xabc'', run_txs mock_fhevm linkMatchContractAddress [submission alice 100 10] deployed)"
    for a sg
    using submit_extends_run [of mock_fhevm linkMatchContractAddress alice 10 "[1]" 10 100 "[]" deployed]
    by (simp add: alice_send_def run_txs_Nil submission_def mock_fhevm_def)
  show ?thesis
    by (simp add: hook_submitGameResult_def submit_run_def submit_world_ok_def s isStale_def
        refs_unchanged_def submit_finally_def fixture_hook_def falsy_def fixture_address_def)
qed

theorem stale_submission_is_discarded_witness:
  "linkMatch_address fixture_hook = Some fixture_address \<and>
   ethersSigner fixture_hook = Some fixture_signer \<and>
   isStale fixture_address (chainId fixture_hook) fixture_signer
     (refs_after_encrypt submit_world_switched) \<and>
   hook_submitGameResult alice_send submit_world_switched 300 fixture_hook deployed =
     (fixture_hook\<lparr>message := ''Ignore submit''\<rparr>, deployed,
      [Encrypt fixture_address (signer_address fixture_signer) 300])"
proof -
  have a: "linkMatch_address fixture_hook = Some fixture_address"
    and b: "ethersSigner fixture_hook = Some fixture_signer"
    by (simp_all add: fixture_hook_def)
  have c: "isStale fixture_address (chainId fixture_hook) fixture_signer
     (refs_after_encrypt submit_world_switched)"
    by (simp add: isStale_def submit_world_switched_def refs_chain_switched_def)
  have pre: "\<not> isRefreshingRef fixture_hook \<and> \<not> isSubmittingRef fixture_hook \<and>
     fixture_address \<noteq> [] \<and> fhevm_instance fixture_hook \<noteq> None \<and>
     (\<exists>x. encrypt_result submit_world_switched = Inr x)"
    by (simp add: fixture_hook_def fixture_address_def submit_world_switched_def)
  have e: "fixture_hook\<lparr>isSubmittingRef := False, isSubmitting := False,
        message := ''Ignore submit''\<rparr> = fixture_hook\<lparr>message := ''Ignore submit''\<rparr>"
    by (simp add: fixture_hook_def)
  from stale_submission_is_discarded [OF a b c, of alice_send 300 deployed] pre
  have "hook_submitGameResult alice_send submit_world_switched 300 fixture_hook deployed =
     (fixture_hook\<lparr>isSubmittingRef := False, isSubmitting := False,
        message := ''Ignore submit''\<rparr>, deployed,
      [Encrypt fixture_address (signer_address fixture_signer) 300])"
    by blast
  with a b c e show ?thesis by simp
qed

lemma decrypt_fixture_run:
  "decryptPlayerResult (decrypt_world_ok fixture_handle 1234) fixture_hook =
     (fixture_hook\<lparr>clearResult := Some \<lparr>cv_handle = fixture_handle,
                                            cv_clear = Some (ClearBigint 1234)\<rparr>,
                    clearResultRef := Some \<lparr>cv_handle = fixture_handle,
                                               cv_clear = Some (ClearBigint 1234)\<rparr>,
                    message := ''FHEVM userDecrypt completed!''\<rparr>,
      [LoadOrSign [fixture_address] fixture_signer,
       UserDecrypt fixture_handle fixture_address fixture_signature], None)"
  by (simp add: decryptPlayerResult_def decrypt_run_def decrypt_world_ok_def decrypt_finally_def
      hook_eval Let_def)

theorem decrypt_short_circuit_witness:
  "playerResultHandle
     (fst (decryptPlayerResult (decrypt_world_ok fixture_handle 1234) fixture_hook)) =
     Some fixture_handle \<and>
   clearResultRef
     (fst (decryptPlayerResult (decrypt_world_ok fixture_handle 1234) fixture_hook)) =
     Some \<lparr>cv_handle = fixture_handle, cv_clear = Some (ClearBigint 1234)\<rparr> \<and>
   decryptPlayerResult (decrypt_world_ok fixture_handle 9999)
     (fst (decryptPlayerResult (decrypt_world_ok fixture_handle 1234) fixture_hook)) =
     (fst (decryptPlayerResult (decrypt_world_ok fixture_handle 1234) fixture_hook),
      [], None)"
proof -
  let ?st = "fst (decryptPlayerResult (decrypt_world_ok fixture_handle 1234) fixture_hook)"
  let ?cv = "\<lparr>cv_handle = fixture_handle, cv_clear = Some (ClearBigint 1234)\<rparr>"
  have a: "playerResultHandle ?st = Some fixture_handle"
    by (simp add: decrypt_fixture_run) (simp add: fixture_hook_def)
  have b: "clearResultRef ?st = Some ?cv"
    by (simp add: decrypt_fixture_run)
  have c: "cv_handle ?cv = fixture_handle" by simp
  from decrypt_short_circuit [OF a b c, of "decrypt_world_ok fixture_handle 9999"] a b
  show ?thesis by blast
qed

theorem decrypt_requires_handle_witness:
  "list_ex is_backend_decrypt_call
     (fst (snd (Home_decrypt_onClick (decrypt_world_ok fixture_handle 1234) fixture_hook))) \<and>
   (\<exists>h. playerResultHandle fixture_hook = Some h \<and> h \<noteq> [] \<and> h \<noteq> ZeroHash) \<and>
   playerResultHandle (fixture_hook\<lparr>playerResultHandle := Some []\<rparr>) = Some [] \<and>
   fst (snd (Home_decrypt_onClick (decrypt_world_ok [] 0)
               (fixture_hook\<lparr>playerResultHandle := Some []\<rparr>))) = [] \<and>
   playerResultHandle (fixture_hook\<lparr>playerResultHandle := Some ZeroHash\<rparr>) = Some ZeroHash \<and>
   fst (snd (Home_decrypt_onClick (decrypt_world_ok ZeroHash 0)
               (fixture_hook\<lparr>playerResultHandle := Some ZeroHash\<rparr>))) = []"
proof -
  let ?w = "decrypt_world_ok fixture_handle 1234"
  have g: "canDecrypt fixture_hook"
    by (simp add: canDecrypt_def hook_eval)
  have "list_ex is_backend_decrypt_call (fst (snd (decryptPlayerResult ?w fixture_hook)))"
    by (simp add: decrypt_fixture_run)
  with g have c: "list_ex is_backend_decrypt_call (fst (snd (Home_decrypt_onClick ?w fixture_hook)))"
    by (simp add: Home_decrypt_onClick_def)
  from decrypt_requires_handle [of ?w fixture_hook] c
  have h: "\<exists>h. playerResultHandle fixture_hook = Some h \<and> h \<noteq> [] \<and> h \<noteq> ZeroHash"
    by blast
  have e: "playerResultHandle (fixture_hook\<lparr>playerResultHandle := Some []\<rparr>) = Some []"
    by simp
  from decrypt_requires_handle [of "decrypt_world_ok [] 0" "fixture_hook\<lparr>playerResultHandle := Some []\<rparr>"] e
  have e': "fst (snd (Home_decrypt_onClick (decrypt_world_ok [] 0)
               (fixture_hook\<lparr>playerResultHandle := Some []\<rparr>))) = []"
    by blast
  have z: "playerResultHandle (fixture_hook\<lparr>playerResultHandle := Some ZeroHash\<rparr>) = Some ZeroHash"
    by simp
  from decrypt_requires_handle [of "decrypt_world_ok ZeroHash 0"
      "fixture_hook\<lparr>playerResultHandle := Some ZeroHash\<rparr>"] z
  have z': "fst (snd (Home_decrypt_onClick (decrypt_world_ok ZeroHash 0)
               (fixture_hook\<lparr>playerResultHandle := Some ZeroHash\<rparr>))) = []"
    by blast
  from c h e e' z z' show ?thesis by blast
qed

section \<open>The score that is encrypted and the score that is shown\<close>
























end
